theory Spec2Isabelle
  imports Complex_Main "HOL-Library.Word" "HOL-Library.Log_Nat"
begin

section \<open>Arrays, errors and colorspace tags\<close>

text \<open>
  The development follows \<^verbatim>\<open>imgaug/augmenters/color.py\<close>. A numpy array of dtype
  \<^verbatim>\<open>uint8\<close> is a shape, a flat buffer in C order and the \<^verbatim>\<open>C_CONTIGUOUS\<close> flag that
  \<^verbatim>\<open>_get_dst\<close> reads. The element type fixes the dtype, so \<^verbatim>\<open>iadt.gate_dtypes\<close> and the
  assertions on \<^verbatim>\<open>dtype.name == "uint8"\<close> always pass and have no branch here.
  Python exceptions are values of \<open>error\<close>; an assertion carries the first words of its
  message.
\<close>

type_synonym uint8 = "8 word"

record ndarray =
  shape :: "nat list"
  data :: "uint8 list"
  c_contiguous :: bool

datatype error = AssertionError string | KeyError | IndexError | ValueError

definition ndim :: "ndarray \<Rightarrow> nat" where
  "ndim a = length (shape a)"

definition CSPACE_RGB :: string where "CSPACE_RGB = ''RGB''"
definition CSPACE_BGR :: string where "CSPACE_BGR = ''BGR''"
definition CSPACE_GRAY :: string where "CSPACE_GRAY = ''GRAY''"
definition CSPACE_YCrCb :: string where "CSPACE_YCrCb = ''YCrCb''"
definition CSPACE_HSV :: string where "CSPACE_HSV = ''HSV''"
definition CSPACE_HLS :: string where "CSPACE_HLS = ''HLS''"
definition CSPACE_Lab :: string where "CSPACE_Lab = ''Lab''"
definition CSPACE_Luv :: string where "CSPACE_Luv = ''Luv''"
definition CSPACE_YUV :: string where "CSPACE_YUV = ''YUV''"
definition CSPACE_CIE :: string where "CSPACE_CIE = ''CIE''"

definition CSPACE_ALL :: "string list" where
  "CSPACE_ALL = [CSPACE_RGB, CSPACE_BGR, CSPACE_GRAY, CSPACE_YCrCb,
                 CSPACE_HSV, CSPACE_HLS, CSPACE_Lab, CSPACE_Luv,
                 CSPACE_YUV, CSPACE_CIE]"

lemmas CSPACE_defs =
  CSPACE_RGB_def CSPACE_BGR_def CSPACE_GRAY_def CSPACE_YCrCb_def CSPACE_HSV_def
  CSPACE_HLS_def CSPACE_Lab_def CSPACE_Luv_def CSPACE_YUV_def CSPACE_CIE_def

text \<open>
  \<^verbatim>\<open>_CSPACE_OPENCV_CONV_VARS\<close>: the dictionary from (source, target) to the OpenCV
  conversion constant, in the order of the source. A constant is written by its name in
  \<^verbatim>\<open>cv2\<close>; where the source asks \<^verbatim>\<open>_get_opencv_attr\<close> for the first of several spellings
  that \<^verbatim>\<open>cv2\<close> has, the first spelling stands for the constant.
\<close>

definition CSPACE_OPENCV_CONV_VARS :: "((string \<times> string) \<times> string) list" where
  "CSPACE_OPENCV_CONV_VARS = [
     ((CSPACE_RGB, CSPACE_BGR), ''COLOR_RGB2BGR''),
     ((CSPACE_RGB, CSPACE_GRAY), ''COLOR_RGB2GRAY''),
     ((CSPACE_RGB, CSPACE_YCrCb), ''COLOR_RGB2YCR_CB''),
     ((CSPACE_RGB, CSPACE_HSV), ''COLOR_RGB2HSV''),
     ((CSPACE_RGB, CSPACE_HLS), ''COLOR_RGB2HLS''),
     ((CSPACE_RGB, CSPACE_Lab), ''COLOR_RGB2LAB''),
     ((CSPACE_RGB, CSPACE_Luv), ''COLOR_RGB2LUV''),
     ((CSPACE_RGB, CSPACE_YUV), ''COLOR_RGB2YUV''),
     ((CSPACE_RGB, CSPACE_CIE), ''COLOR_RGB2XYZ''),
     ((CSPACE_BGR, CSPACE_RGB), ''COLOR_BGR2RGB''),
     ((CSPACE_BGR, CSPACE_GRAY), ''COLOR_BGR2GRAY''),
     ((CSPACE_BGR, CSPACE_YCrCb), ''COLOR_BGR2YCR_CB''),
     ((CSPACE_BGR, CSPACE_HSV), ''COLOR_BGR2HSV''),
     ((CSPACE_BGR, CSPACE_HLS), ''COLOR_BGR2HLS''),
     ((CSPACE_BGR, CSPACE_Lab), ''COLOR_BGR2LAB''),
     ((CSPACE_BGR, CSPACE_Luv), ''COLOR_BGR2LUV''),
     ((CSPACE_BGR, CSPACE_YUV), ''COLOR_BGR2YUV''),
     ((CSPACE_BGR, CSPACE_CIE), ''COLOR_BGR2XYZ''),
     ((CSPACE_YCrCb, CSPACE_RGB), ''COLOR_YCrCb2RGB''),
     ((CSPACE_YCrCb, CSPACE_BGR), ''COLOR_YCrCb2BGR''),
     ((CSPACE_HSV, CSPACE_RGB), ''COLOR_HSV2RGB''),
     ((CSPACE_HSV, CSPACE_BGR), ''COLOR_HSV2BGR''),
     ((CSPACE_HLS, CSPACE_RGB), ''COLOR_HLS2RGB''),
     ((CSPACE_HLS, CSPACE_BGR), ''COLOR_HLS2BGR''),
     ((CSPACE_Lab, CSPACE_RGB), ''COLOR_Lab2RGB''),
     ((CSPACE_Lab, CSPACE_BGR), ''COLOR_Lab2BGR''),
     ((CSPACE_Luv, CSPACE_RGB), ''COLOR_Luv2RGB''),
     ((CSPACE_Luv, CSPACE_BGR), ''COLOR_Luv2BGR''),
     ((CSPACE_YUV, CSPACE_RGB), ''COLOR_YUV2RGB''),
     ((CSPACE_YUV, CSPACE_BGR), ''COLOR_YUV2BGR''),
     ((CSPACE_CIE, CSPACE_RGB), ''COLOR_XYZ2RGB''),
     ((CSPACE_CIE, CSPACE_BGR), ''COLOR_XYZ2BGR'')]"

text \<open>
  \<^verbatim>\<open>_CHANGE_COLORSPACE_INPLACE\<close> has the same keys, every value \<^verbatim>\<open>True\<close>.
\<close>

definition CHANGE_COLORSPACE_INPLACE :: "((string \<times> string) \<times> bool) list" where
  "CHANGE_COLORSPACE_INPLACE = map (\<lambda>(k, v). (k, True)) CSPACE_OPENCV_CONV_VARS"

section \<open>Colorspace conversion\<close>

text \<open>
  \<^verbatim>\<open>cv2.cvtColor(src, code, dst=dst)\<close> is OpenCV's and not part of the repository: it is
  the parameter \<open>cvtColor\<close> of the model, a function of the source array, the conversion
  constant and the optional destination buffer.
\<close>

type_synonym cvt = "ndarray \<Rightarrow> string \<Rightarrow> ndarray option \<Rightarrow> ndarray"

text \<open>The inner function \<^verbatim>\<open>_get_dst\<close>; a dictionary miss raises \<^verbatim>\<open>KeyError\<close>.\<close>

definition get_dst :: "ndarray \<Rightarrow> string \<times> string \<Rightarrow> error + ndarray option" where
  "get_dst img from_to_cspace =
     (case map_of CHANGE_COLORSPACE_INPLACE from_to_cspace of
        None \<Rightarrow> Inl KeyError
      | Some inplace \<Rightarrow>
          if inplace then (if c_contiguous img then Inr (Some img) else Inr None)
          else Inr None)"

text \<open>
  The end of \<^verbatim>\<open>change_colorspace_\<close>: a two-dimensional (grayscale) result gets a new
  last axis and is tiled to three channels, so every sample is written three times.
\<close>

definition gray_to_3 :: "ndarray \<Rightarrow> ndarray" where
  "gray_to_3 image_aug =
     (if length (shape image_aug) = 2
      then \<lparr>shape = shape image_aug @ [3],
            data = concat (map (\<lambda>v. [v, v, v]) (data image_aug)),
            c_contiguous = True\<rparr>
      else image_aug)"

text \<open>
  \<^verbatim>\<open>change_colorspace_(image, to_colorspace, from_colorspace)\<close> (an Isabelle name cannot
  end in an underscore). The checks run in the order of the source: the target tag, the
  source tag, the grayscale guard, the dimensions, the channel count, and only then the
  shortcut for equal tags.
\<close>

definition change_colorspace_inplace ::
    "cvt \<Rightarrow> ndarray \<Rightarrow> string \<Rightarrow> string \<Rightarrow> error + ndarray" where
  "change_colorspace_inplace cvtColor img to_colorspace from_colorspace =
     (if to_colorspace \<notin> set CSPACE_ALL
        then Inl (AssertionError ''Expected `to_colorspace` to be one of'')
      else if from_colorspace \<notin> set CSPACE_ALL
        then Inl (AssertionError ''Expected `from_colorspace` to be one of'')
      else if from_colorspace = CSPACE_GRAY
        then Inl (AssertionError ''Cannot convert from grayscale to another colorspace'')
      else if ndim img \<noteq> 3
        then Inl (AssertionError ''Expected image shape to be three-dimensional'')
      else if shape img ! 2 \<noteq> 3
        then Inl (AssertionError ''Expected number of channels to be three'')
      else if from_colorspace = to_colorspace then Inr img
      else
        (case map_of CSPACE_OPENCV_CONV_VARS (from_colorspace, to_colorspace) of
           Some from2to_var \<Rightarrow>
             (case get_dst img (from_colorspace, to_colorspace) of
                Inl e \<Rightarrow> Inl e
              | Inr dst \<Rightarrow> Inr (gray_to_3 (cvtColor img from2to_var dst)))
         | None \<Rightarrow>
             (case map_of CSPACE_OPENCV_CONV_VARS (from_colorspace, CSPACE_RGB) of
                None \<Rightarrow> Inl KeyError
              | Some from2rgb_var \<Rightarrow>
                  (case map_of CSPACE_OPENCV_CONV_VARS (CSPACE_RGB, to_colorspace) of
                     None \<Rightarrow> Inl KeyError
                   | Some rgb2to_var \<Rightarrow>
                       (case get_dst img (from_colorspace, CSPACE_RGB) of
                          Inl e \<Rightarrow> Inl e
                        | Inr dst1 \<Rightarrow>
                            (case get_dst img (CSPACE_RGB, to_colorspace) of
                               Inl e \<Rightarrow> Inl e
                             | Inr dst2 \<Rightarrow>
                                 Inr (gray_to_3
                                   (cvtColor (cvtColor img from2rgb_var dst1)
                                      rgb2to_var dst2))))))))"

text \<open>
  \<^verbatim>\<open>change_colorspaces_(images, to_colorspaces, from_colorspaces)\<close>. A colorspace
  argument is a string, a list of strings, or anything else, which \<^verbatim>\<open>_validate\<close> refuses.
\<close>

datatype cs_arg = Str string | StrList "string list" | NoStr

definition validate :: "nat \<Rightarrow> cs_arg \<Rightarrow> error + string list" where
  "validate n_images arg =
     (case arg of
        StrList l \<Rightarrow>
          if length l = n_images then Inr l
          else Inl (AssertionError ''If provided as a list it must have the same length as `images`'')
      | Str s \<Rightarrow> Inr (replicate n_images s)
      | NoStr \<Rightarrow> Inl (AssertionError ''Expected either a list of strings or a single string''))"

subsection \<open>Array objects\<close>

text \<open>
  A batch is a Python list of array objects, and \<^verbatim>\<open>change_colorspace_\<close> may write its
  result into the object it was given (\<^verbatim>\<open>dst\<close>), so two entries of a list that are the
  same object see each other's writes. For the batch functions an array object is
  therefore a position in a store, the list holds references, and every function takes
  the store and returns the new one.

  \<^verbatim>\<open>cv2.cvtColor\<close> on objects is again a parameter: from the store, the source, the
  constant and the optional destination it gives the new store and the object it
  returns. Whether it writes into \<^verbatim>\<open>dst\<close> or allocates is OpenCV's decision.
\<close>

type_synonym ref = nat
type_synonym store = "ndarray list"
type_synonym cvt_obj = "store \<Rightarrow> ref \<Rightarrow> string \<Rightarrow> ref option \<Rightarrow> store \<times> ref"

text \<open>\<^verbatim>\<open>_get_dst\<close> on an object: the destination is the object itself.\<close>

definition get_dst_obj :: "store \<Rightarrow> ref \<Rightarrow> string \<times> string \<Rightarrow> error + ref option" where
  "get_dst_obj s img from_to_cspace =
     (case get_dst (s ! img) from_to_cspace of
        Inl e \<Rightarrow> Inl e
      | Inr None \<Rightarrow> Inr None
      | Inr (Some _) \<Rightarrow> Inr (Some img))"

text \<open>
  The end of \<^verbatim>\<open>change_colorspace_\<close> on an object: \<^verbatim>\<open>np.tile\<close> makes a new array, any
  other result is returned as the object it is.
\<close>

definition gray_to_3_obj :: "store \<times> ref \<Rightarrow> store \<times> ref" where
  "gray_to_3_obj sr =
     (case sr of (s, image_aug) \<Rightarrow>
        if length (shape (s ! image_aug)) = 2
        then (s @ [gray_to_3 (s ! image_aug)], length s)
        else (s, image_aug))"

text \<open>\<^verbatim>\<open>change_colorspace_\<close> on an object of the store, line by line as above.\<close>

definition change_colorspace_inplace_obj ::
    "cvt_obj \<Rightarrow> store \<Rightarrow> ref \<Rightarrow> string \<Rightarrow> string \<Rightarrow> error + store \<times> ref" where
  "change_colorspace_inplace_obj cvtColor s img to_colorspace from_colorspace =
     (if to_colorspace \<notin> set CSPACE_ALL
        then Inl (AssertionError ''Expected `to_colorspace` to be one of'')
      else if from_colorspace \<notin> set CSPACE_ALL
        then Inl (AssertionError ''Expected `from_colorspace` to be one of'')
      else if from_colorspace = CSPACE_GRAY
        then Inl (AssertionError ''Cannot convert from grayscale to another colorspace'')
      else if ndim (s ! img) \<noteq> 3
        then Inl (AssertionError ''Expected image shape to be three-dimensional'')
      else if shape (s ! img) ! 2 \<noteq> 3
        then Inl (AssertionError ''Expected number of channels to be three'')
      else if from_colorspace = to_colorspace then Inr (s, img)
      else
        (case map_of CSPACE_OPENCV_CONV_VARS (from_colorspace, to_colorspace) of
           Some from2to_var \<Rightarrow>
             (case get_dst_obj s img (from_colorspace, to_colorspace) of
                Inl e \<Rightarrow> Inl e
              | Inr dst \<Rightarrow> Inr (gray_to_3_obj (cvtColor s img from2to_var dst)))
         | None \<Rightarrow>
             (case map_of CSPACE_OPENCV_CONV_VARS (from_colorspace, CSPACE_RGB) of
                None \<Rightarrow> Inl KeyError
              | Some from2rgb_var \<Rightarrow>
                  (case map_of CSPACE_OPENCV_CONV_VARS (CSPACE_RGB, to_colorspace) of
                     None \<Rightarrow> Inl KeyError
                   | Some rgb2to_var \<Rightarrow>
                       (case get_dst_obj s img (from_colorspace, CSPACE_RGB) of
                          Inl e \<Rightarrow> Inl e
                        | Inr dst1 \<Rightarrow>
                            (case get_dst_obj s img (CSPACE_RGB, to_colorspace) of
                               Inl e \<Rightarrow> Inl e
                             | Inr dst2 \<Rightarrow>
                                 (case cvtColor s img from2rgb_var dst1 of
                                    (s1, image_aug) \<Rightarrow>
                                      Inr (gray_to_3_obj
                                             (cvtColor s1 image_aug rgb2to_var dst2)))))))))"

text \<open>
  The loop \<^verbatim>\<open>for i, (image, to_colorspace, from_colorspace) in enumerate(gen)\<close> of
  \<^verbatim>\<open>change_colorspaces_\<close> writes each returned object to \<^verbatim>\<open>images[i]\<close>. The state is the
  store and the caller's list; the model returns the state as it is when the loop ends
  or an exception leaves it, beside the exception. Entry \<open>i\<close> of the list is read at
  step \<open>i\<close>, before it is written, so the zipped entries are those of the list at the
  call.
\<close>

fun convert_loop ::
    "cvt_obj \<Rightarrow> nat \<Rightarrow> (ref \<times> string \<times> string) list \<Rightarrow> store \<times> ref list
      \<Rightarrow> (store \<times> ref list) \<times> error option" where
  "convert_loop cvtColor i [] (s, images) = ((s, images), None)"
| "convert_loop cvtColor i ((img, to_colorspace, from_colorspace) # gen) (s, images) =
     (case change_colorspace_inplace_obj cvtColor s img to_colorspace from_colorspace of
        Inl e \<Rightarrow> ((s, images), Some e)
      | Inr (s1, image_aug) \<Rightarrow>
          convert_loop cvtColor (Suc i) gen (s1, images[i := image_aug]))"

definition change_colorspaces_inplace ::
    "cvt_obj \<Rightarrow> store \<Rightarrow> ref list \<Rightarrow> cs_arg \<Rightarrow> cs_arg
      \<Rightarrow> (store \<times> ref list) \<times> error option" where
  "change_colorspaces_inplace cvtColor s images to_colorspaces from_colorspaces =
     (case validate (length images) to_colorspaces of
        Inl e \<Rightarrow> ((s, images), Some e)
      | Inr tos \<Rightarrow>
          (case validate (length images) from_colorspaces of
             Inl e \<Rightarrow> ((s, images), Some e)
           | Inr froms \<Rightarrow>
               convert_loop cvtColor 0 (zip images (zip tos froms)) (s, images)))"

section \<open>Floating point\<close>

text \<open>
  A finite \<^verbatim>\<open>float32\<close> or \<^verbatim>\<open>float64\<close> value is the real number it denotes. An
  operation of precision \<open>p\<close> (24 bits for \<^verbatim>\<open>float32\<close>, 53 for \<^verbatim>\<open>float64\<close>) returns the
  exact result rounded to the nearest number with a \<open>p\<close>-bit significand, ties to the
  even significand, as IEEE 754 prescribes. Overflow and subnormal numbers do not occur
  for the magnitudes of this code (sample values and sizes between \<open>2\<^sup>-\<^sup>1\<^sup>0\<close> and
  \<open>2\<^sup>3\<^sup>1\<close>) and are not modelled.

  \<open>expo x\<close> is the binary exponent of \<open>x \<noteq> 0\<close>, the \<open>e\<close> with \<open>2\<^sup>e \<le> \<bar>x\<bar> < 2\<^sup>e\<^sup>+\<^sup>1\<close>.
\<close>

definition expo :: "real \<Rightarrow> int" where
  "expo x =
     (let a = \<bar>x\<bar> in
      if 1 \<le> a then bitlen \<lfloor>a\<rfloor> - 1
      else (let j = bitlen \<lfloor>1 / a\<rfloor> - 1 in if a * 2 powi j = 1 then - j else - j - 1))"

definition round_half_even :: "real \<Rightarrow> int" where
  "round_half_even y =
     (let f = \<lfloor>y\<rfloor>; d = y - of_int f in
      if d < 1 / 2 then f else if 1 / 2 < d then f + 1 else if even f then f else f + 1)"

definition fround :: "nat \<Rightarrow> real \<Rightarrow> real" where
  "fround p x =
     (if x = 0 then 0
      else (let ulp = 2 powi (expo x - int p + 1)
            in sgn x * of_int (round_half_even (\<bar>x\<bar> / ulp)) * ulp))"

definition f32 :: "real \<Rightarrow> real" where
  "f32 x = fround 24 x"

definition f64 :: "real \<Rightarrow> real" where
  "f64 x = fround 53 x"

text \<open>
  \<^verbatim>\<open>astype\<close> from a float to an integer type and Python's \<^verbatim>\<open>int(x)\<close> drop the fraction
  (round toward zero).
\<close>

definition trunc :: "real \<Rightarrow> int" where
  "trunc x = (if 0 \<le> x then \<lfloor>x\<rfloor> else \<lceil>x\<rceil>)"

definition clip :: "int \<Rightarrow> int \<Rightarrow> int \<Rightarrow> int" where
  "clip x lo hi = min (max x lo) hi"

section \<open>Hue and saturation\<close>

subsection \<open>\<^verbatim>\<open>WithHueAndSaturation\<close>: the projections of the hue\<close>




subsection \<open>\<^verbatim>\<open>AddToHueAndSaturation\<close>\<close>

text \<open>
  A stochastic parameter (\<^verbatim>\<open>imgaug.parameters\<close>) and the random states are not part of
  the repository's sources here. A parameter is modelled by what one call of
  \<^verbatim>\<open>draw_samples\<close> with its random state returns, after \<^verbatim>\<open>astype(np.int32)\<close> where the
  source converts: the function from the position in the drawn array to the value there.
  The field \<^verbatim>\<open>value\<close> is \<open>val\<close> here; \<^verbatim>\<open>backend\<close> is always \<^verbatim>\<open>"cv2"\<close>.
\<close>

record add_hs =
  val :: "(nat \<Rightarrow> nat \<Rightarrow> int) option"
  value_hue :: "(nat \<Rightarrow> int) option"
  value_saturation :: "(nat \<Rightarrow> int) option"
  per_channel :: "nat \<Rightarrow> real"
  from_colorspace :: string








definition set_channel :: "nat \<Rightarrow> (uint8 \<Rightarrow> uint8) \<Rightarrow> ndarray \<Rightarrow> ndarray" where
  "set_channel c f a =
     a\<lparr>data := map (\<lambda>k. if k mod last (shape a) = c then f (data a ! k) else data a ! k)
                   [0..<length (data a)]\<rparr>"

text \<open>
  \<^verbatim>\<open>_transform_image_cv2\<close> writes into the array it is given. The model returns the array
  as it is when the function ends or an exception leaves it, beside the exception: a
  failing lookup of the saturation row leaves the hue plane already replaced. In each
  of the two statements the right-hand side is evaluated first, the plane
  \<^verbatim>\<open>image_hsv[..., c]\<close> (an \<^verbatim>\<open>IndexError\<close> when the last axis has no position \<open>c\<close>) and
  then the row of the table.
\<close>

definition has_channel :: "ndarray \<Rightarrow> nat \<Rightarrow> bool" where
  "has_channel a c = (shape a \<noteq> [] \<and> c < last (shape a))"






section \<open>Color quantization\<close>

text \<open>
  \<^verbatim>\<open>np.copy\<close> gives a new, contiguous array with the same shape and samples.
\<close>

definition np_copy :: "ndarray \<Rightarrow> ndarray" where
  "np_copy a = \<lparr>shape = shape a, data = data a, c_contiguous = True\<rparr>"

subsection \<open>\<^verbatim>\<open>quantize_colors_kmeans\<close>\<close>

text \<open>
  \<^verbatim>\<open>cv2.kmeans\<close> is OpenCV's: the parameter \<open>kmeans\<close> gives, for the list of colors, the
  number of clusters, the iteration bound and the epsilon, the label of every color and
  the list of centers. The seeding of OpenCV's random number generator around the call
  changes no value of the function and is left out. \<open>rows c xs\<close> is the reshape of a
  flat buffer to rows of \<open>c\<close> samples.
\<close>

type_synonym kmeans = "real list list \<Rightarrow> int \<Rightarrow> nat \<Rightarrow> real \<Rightarrow> nat list \<times> real list list"

definition rows :: "nat \<Rightarrow> 'a list \<Rightarrow> 'a list list" where
  "rows c xs = map (\<lambda>i. take c (drop (i * c) xs)) [0..<length xs div c]"

definition quantize_colors_kmeans ::
    "kmeans \<Rightarrow> ndarray \<Rightarrow> int \<Rightarrow> nat \<Rightarrow> real \<Rightarrow> error + ndarray" where
  "quantize_colors_kmeans cv2_kmeans img n_colors n_max_iter eps =
     (if ndim img \<noteq> 2 \<and> ndim img \<noteq> 3
        then Inl (AssertionError ''Expected two- or three-dimensional image shape'')
      else if \<not> (2 \<le> n_colors \<and> n_colors \<le> 256)
        then Inl (AssertionError ''Expected n_colors to be in the discrete interval [2..256]'')
      else
        (let n_pixels = prod_list (take 2 (shape img))
         in if int n_pixels \<le> n_colors then Inr (np_copy img)
            else
              (let nb_channels = (if ndim img = 2 then 1 else last (shape img))
               in if nb_channels = 0 then Inl ValueError
                  else
                    (let colors = map (map (\<lambda>v. f32 (of_int (uint v)))) (rows nb_channels (data img));
                         (labels, centers) = cv2_kmeans colors n_colors n_max_iter eps;
                         centers_uint8 = map (map (\<lambda>c. (of_int (trunc c) :: uint8))) centers
                     in if \<exists>l \<in> set labels. length centers_uint8 \<le> l then Inl IndexError
                        else
                          (let quantized_flat = map (\<lambda>l. centers_uint8 ! l) labels
                           in if length (concat quantized_flat) \<noteq> prod_list (shape img)
                                then Inl ValueError
                              else Inr \<lparr>shape = shape img, data = concat quantized_flat,
                                        c_contiguous = True\<rparr>)))))"

subsection \<open>\<^verbatim>\<open>quantize_colors_uniform\<close>\<close>

text \<open>
  \<open>q = 256 / n_colors\<close> is a \<^verbatim>\<open>float64\<close> scalar, the image a \<^verbatim>\<open>float32\<close> array. With the
  promotion rules of numpy before version 2 the scalar is cast to \<^verbatim>\<open>float32\<close> and every
  operation of \<^verbatim>\<open>np.floor(image / q) * q + q/2\<close> is one of \<^verbatim>\<open>float32\<close>; from version 2 on
  the array is cast to \<^verbatim>\<open>float64\<close> and every operation is one of \<^verbatim>\<open>float64\<close>. The precision
  \<open>p\<close> of the array arithmetic is therefore a parameter, 24 or 53. \<^verbatim>\<open>np.floor\<close> and
  \<^verbatim>\<open>np.round\<close> (to the even neighbour at a tie) give integers, which are exact.
\<close>

definition uniform_sample :: "nat \<Rightarrow> real \<Rightarrow> uint8 \<Rightarrow> uint8" where
  "uniform_sample p q v =
     (let x = fround p (f32 (of_int (uint v)));
          a = fround p (x / fround p q);
          b = fround p (of_int \<lfloor>a\<rfloor> * fround p q);
          image_aug = fround p (b + fround p (q / 2))
      in of_int (clip (round_half_even image_aug) 0 255))"

definition quantize_colors_uniform :: "nat \<Rightarrow> ndarray \<Rightarrow> int \<Rightarrow> error + ndarray" where
  "quantize_colors_uniform p img n_colors =
     (if \<not> (2 \<le> n_colors \<and> n_colors \<le> 256)
        then Inl (AssertionError ''Expected n_colors to be in the discrete interval [2..256]'')
      else
        (let n_colors = clip n_colors 2 256
         in if n_colors = 256 then Inr (np_copy img)
            else
              (let q = f64 (256 / of_int n_colors)
               in Inr \<lparr>shape = shape img, data = map (uniform_sample p q) (data img),
                        c_contiguous = True\<rparr>)))"

subsection \<open>\<^verbatim>\<open>_AbstractColorQuantization\<close>\<close>

text \<open>
  \<^verbatim>\<open>_draw_samples\<close>: the parameter \<^verbatim>\<open>n_colors\<close> is, as above, the function from the index
  of the image to the value drawn for it; \<^verbatim>\<open>np.clip(n_colors, 2, None)\<close> has no upper
  bound.
\<close>

definition AbstractColorQuantization_draw_samples :: "(nat \<Rightarrow> int) \<Rightarrow> nat \<Rightarrow> int list" where
  "AbstractColorQuantization_draw_samples n_colors n_augmentables =
     map (\<lambda>n. max n 2) (map n_colors [0..<n_augmentables])"

text \<open>
  An exception of one step ends the function: \<open>then_do x f\<close> passes the value of \<open>x\<close> to
  \<open>f\<close>, or the exception of \<open>x\<close> on.
\<close>

definition then_do :: "error + 'a \<Rightarrow> ('a \<Rightarrow> error + 'b) \<Rightarrow> error + 'b" where
  "then_do x f = (case x of Inl e \<Rightarrow> Inl e | Inr y \<Rightarrow> f y)"

text \<open>
  \<open>pixels a\<close> lists the sub-arrays \<^verbatim>\<open>a[y, x]\<close> of an array with at least two dimensions,
  each as its flat buffer. On them \<^verbatim>\<open>a[:, :, lo:hi]\<close> and
  \<^verbatim>\<open>np.concatenate([a, b], axis=2)\<close> work pixel by pixel. The slice of an array with fewer
  than three dimensions raises \<^verbatim>\<open>IndexError\<close>. It is a view: of a contiguous array it is
  contiguous when it keeps every channel, or the array has one pixel, or the view is
  empty. Strides are not part of the record, so the view of an array that is not
  contiguous counts as contiguous only when it is empty. The concatenation of arrays
  that differ in another dimension than the third raises \<^verbatim>\<open>ValueError\<close>, as does every
  concatenation along an axis that the arrays do not have.
\<close>

definition pixels :: "ndarray \<Rightarrow> uint8 list list" where
  "pixels a =
     (let g = prod_list (drop 2 (shape a))
      in map (\<lambda>i. take g (drop (i * g) (data a))) [0..<prod_list (take 2 (shape a))])"

definition slice_channels :: "ndarray \<Rightarrow> nat \<Rightarrow> nat \<Rightarrow> error + ndarray" where
  "slice_channels a lo hi =
     (if ndim a < 3 then Inl IndexError
      else
        (let c = shape a ! 2;
             inner = prod_list (drop 3 (shape a));
             start = min lo c;
             n = min hi c - start;
             new_shape = take 2 (shape a) @ [n] @ drop 3 (shape a)
         in Inr \<lparr>shape = new_shape,
                  data = concat (map (\<lambda>px. take (n * inner) (drop (start * inner) px)) (pixels a)),
                  c_contiguous =
                    (prod_list new_shape = 0 \<or>
                     (c_contiguous a \<and> (n = c \<or> prod_list (take 2 (shape a)) = 1)))\<rparr>))"

definition concatenate_axis2 :: "ndarray \<Rightarrow> ndarray \<Rightarrow> error + ndarray" where
  "concatenate_axis2 a b =
     (if ndim a < 3 \<or> ndim b \<noteq> ndim a \<or> take 2 (shape a) \<noteq> take 2 (shape b)
         \<or> drop 3 (shape a) \<noteq> drop 3 (shape b)
        then Inl ValueError
      else Inr \<lparr>shape = take 2 (shape a) @ [shape a ! 2 + shape b ! 2] @ drop 3 (shape a),
                data = concat (map (\<lambda>(pa, pb). pa @ pb) (zip (pixels a) (pixels b))),
                c_contiguous = True\<rparr>)"

text \<open>
  \<^verbatim>\<open>ia.imresize_single_image(image, sizes, interpolation)\<close> is not among the sources: it
  is the parameter \<open>imresize\<close>. \<^verbatim>\<open>_ensure_max_size\<close> computes the new size in Python
  floats; \<^verbatim>\<open>max_size\<close> is \<^verbatim>\<open>None\<close> or a size, which is not negative.
\<close>

type_synonym imresize = "ndarray \<Rightarrow> nat list \<Rightarrow> string \<Rightarrow> error + ndarray"

definition ensure_max_size :: "imresize \<Rightarrow> ndarray \<Rightarrow> nat option \<Rightarrow> string \<Rightarrow> error + ndarray" where
  "ensure_max_size imresize img max_size interpolation =
     (case max_size of
        None \<Rightarrow> Inr img
      | Some m \<Rightarrow>
          if ndim img < 2 then Inl IndexError
          else
            (let size = max (shape img ! 0) (shape img ! 1)
             in if m < size then
                  (let resize_factor = f64 (of_nat m / of_nat size);
                       new_height = nat (trunc (f64 (of_nat (shape img ! 0) * resize_factor)));
                       new_width = nat (trunc (f64 (of_nat (shape img ! 1) * resize_factor)))
                   in imresize img [new_height, new_width] interpolation)
                else Inr img))"

text \<open>
  \<^verbatim>\<open>_AbstractColorQuantization._augment_single_image\<close>. \<^verbatim>\<open>self._quantize\<close> is abstract: the
  parameter \<open>quantize\<close>. The branch on \<^verbatim>\<open>self.to_colorspace\<close> only builds the two augmenters
  \<^verbatim>\<open>cs\<close> and \<^verbatim>\<open>cs_inv\<close>, two \<^verbatim>\<open>meta.Noop\<close> or two \<^verbatim>\<open>ChangeColorspace\<close>; their
  \<^verbatim>\<open>augment_image\<close> is \<^verbatim>\<open>meta.Augmenter\<close>'s and not among the sources: the parameters
  \<open>cs\<close> and \<open>cs_inv\<close>.
\<close>

definition augment_single_image ::
    "(ndarray \<Rightarrow> int \<Rightarrow> error + ndarray) \<Rightarrow> (ndarray \<Rightarrow> error + ndarray)
      \<Rightarrow> (ndarray \<Rightarrow> error + ndarray) \<Rightarrow> imresize \<Rightarrow> nat option \<Rightarrow> string
      \<Rightarrow> ndarray \<Rightarrow> int \<Rightarrow> error + ndarray" where
  "augment_single_image quantize cs cs_inv imresize max_size interpolation img n_colors =
     (if shape img = [] then Inl IndexError
      else if last (shape img) \<notin> {1, 3, 4}
        then Inl (AssertionError ''Expected image with 1, 3 or 4 channels'')
      else
        then_do (ensure_max_size imresize img max_size interpolation) (\<lambda>img1.
        then_do
          (if shape img1 = [] then Inl IndexError
           else if last (shape img1) = 1 then quantize img1 n_colors
           else
             then_do
               (if last (shape img1) = 4
                then then_do (slice_channels img1 3 4) (\<lambda>alpha_channel.
                     then_do (slice_channels img1 0 3) (\<lambda>img2.
                       Inr (Some alpha_channel, img2)))
                else Inr (None, img1))
               (\<lambda>(alpha_channel, img2).
                  then_do (cs img2) (\<lambda>image_tf.
                  then_do (quantize image_tf n_colors) (\<lambda>image_tf_aug.
                  then_do (cs_inv image_tf_aug) (\<lambda>image_aug.
                    case alpha_channel of
                      None \<Rightarrow> Inr image_aug
                    | Some alpha \<Rightarrow> concatenate_axis2 image_aug alpha)))))
          (\<lambda>image_aug.
             if shape img \<noteq> shape image_aug
             then imresize image_aug (take 2 (shape img)) interpolation
             else Inr image_aug)))"

text \<open>
  The two subclasses give \<^verbatim>\<open>_quantize\<close>: \<^verbatim>\<open>KMeansColorQuantization\<close> calls
  \<^verbatim>\<open>quantize_colors_kmeans(image, n_colors)\<close> with the defaults \<^verbatim>\<open>n_max_iter=10\<close> and
  \<^verbatim>\<open>eps=1.0\<close>, \<^verbatim>\<open>UniformColorQuantization\<close> calls \<^verbatim>\<open>quantize_colors_uniform(image, n_colors)\<close>.
\<close>

definition KMeansColorQuantization_quantize :: "kmeans \<Rightarrow> ndarray \<Rightarrow> int \<Rightarrow> error + ndarray" where
  "KMeansColorQuantization_quantize cv2_kmeans img n_colors =
     quantize_colors_kmeans cv2_kmeans img n_colors 10 1"

definition UniformColorQuantization_quantize :: "nat \<Rightarrow> ndarray \<Rightarrow> int \<Rightarrow> error + ndarray" where
  "UniformColorQuantization_quantize p img n_colors = quantize_colors_uniform p img n_colors"

text \<open>
  Modelled from the spec: \<^verbatim>\<open>ia.imresize_single_image\<close>, which is missing from the sources.
  The specification says of it only that the image is downscaled before quantizing and
  the result is upscaled back to the original size. The model is the resize with the
  interpolation \<^verbatim>\<open>nearest\<close>: pixel \<open>(y, x)\<close> of the result is the pixel of the source at
  row \<open>\<lfloor>y \<cdot> h / h'\<rfloor>\<close> and column \<open>\<lfloor>x \<cdot> w / w'\<rfloor>\<close>. It stands in for the parameter
  \<open>imresize\<close> only where a resize has to be computed.
\<close>

definition imresize_nearest :: imresize where
  "imresize_nearest a sizes interpolation =
     (if ndim a \<noteq> 3 \<or> length sizes \<noteq> 2 then Inl ValueError
      else
        (let h = shape a ! 0; w = shape a ! 1; c = shape a ! 2;
             h1 = sizes ! 0; w1 = sizes ! 1
         in if h1 = 0 \<or> w1 = 0 \<or> h = 0 \<or> w = 0
              then Inl (AssertionError ''Cannot resize to or from an empty image'')
            else Inr \<lparr>shape = [h1, w1, c],
                      data = concat (map (\<lambda>i. pixels a ! ((i div w1) * h div h1 * w
                                                            + (i mod w1) * w div w1))
                                      [0..<h1 * w1]),
                      c_contiguous = True\<rparr>))"

text \<open>The conversion of one element of the zipped batch in a store.\<close>

definition conv :: "cvt_obj \<Rightarrow> store \<Rightarrow> ref \<times> string \<times> string \<Rightarrow> error + store \<times> ref" where
  "conv cvtColor s t =
     (case t of (img, to_cs, from_cs) \<Rightarrow>
        change_colorspace_inplace_obj cvtColor s img to_cs from_cs)"

(*DEFS_END*)

section \<open>Properties of the rounding\<close>








section \<open>Properties of the colorspace conversion\<close>

lemma in_CSPACE_ALL:
  "cs \<in> set CSPACE_ALL \<longleftrightarrow>
     cs = CSPACE_RGB \<or> cs = CSPACE_BGR \<or> cs = CSPACE_GRAY \<or> cs = CSPACE_YCrCb \<or>
     cs = CSPACE_HSV \<or> cs = CSPACE_HLS \<or> cs = CSPACE_Lab \<or> cs = CSPACE_Luv \<or>
     cs = CSPACE_YUV \<or> cs = CSPACE_CIE"
  by (auto simp: CSPACE_ALL_def)

text \<open>The rows of RGB and the column of RGB in the table are complete.\<close>

lemma conv_vars_from_rgb:
  assumes "t \<in> set CSPACE_ALL" "t \<noteq> CSPACE_RGB"
  shows "\<exists>v. map_of CSPACE_OPENCV_CONV_VARS (CSPACE_RGB, t) = Some v"
  using assms unfolding in_CSPACE_ALL
  by (elim disjE) (simp_all add: CSPACE_OPENCV_CONV_VARS_def CSPACE_defs)

lemma conv_vars_to_rgb:
  assumes "f \<in> set CSPACE_ALL" "f \<noteq> CSPACE_RGB" "f \<noteq> CSPACE_GRAY"
  shows "\<exists>v. map_of CSPACE_OPENCV_CONV_VARS (f, CSPACE_RGB) = Some v"
  using assms unfolding in_CSPACE_ALL
  by (elim disjE) (simp_all add: CSPACE_OPENCV_CONV_VARS_def CSPACE_defs)

lemma conv_vars_rgb_row_full:
  assumes "t \<in> set CSPACE_ALL" "map_of CSPACE_OPENCV_CONV_VARS (f, t) = None" "f \<noteq> t"
  shows "f \<noteq> CSPACE_RGB"
  using assms conv_vars_from_rgb by fastforce

lemma inplace_dom:
  "map_of CHANGE_COLORSPACE_INPLACE k =
     map_option (\<lambda>_. True) (map_of CSPACE_OPENCV_CONV_VARS k)"
  unfolding CHANGE_COLORSPACE_INPLACE_def
  by (simp add: map_of_map)

lemma get_dst_Some:
  "map_of CSPACE_OPENCV_CONV_VARS k = Some v \<Longrightarrow>
     get_dst img k = Inr (if c_contiguous img then Some img else None)"
  by (simp add: get_dst_def inplace_dom)

lemmas eval_change_colorspace =
  change_colorspace_inplace_def CSPACE_ALL_def CSPACE_defs ndim_def
  CSPACE_OPENCV_CONV_VARS_def get_dst_def CHANGE_COLORSPACE_INPLACE_def gray_to_3_def

subsection \<open>Equal source and target\<close>

text \<open>
  Claim C2, as the code has it. For every \<^verbatim>\<open>uint8\<close> image of shape \<open>(H, W, 3)\<close> and every
  colorspace tag \<open>A\<close> of the supported set other than \<^verbatim>\<open>GRAY\<close>, converting from \<open>A\<close> to
  \<open>A\<close> returns the input image itself, whatever \<^verbatim>\<open>cv2.cvtColor\<close> does.
\<close>

theorem change_colorspace_identity:
  assumes "A \<in> set CSPACE_ALL" "A \<noteq> CSPACE_GRAY" "shape img = [H, W, 3]"
  shows "change_colorspace_inplace cvtColor img A A = Inr img"
  using assms by (simp add: change_colorspace_inplace_def ndim_def)

text \<open>The theorem at \<open>A = HSV\<close> and a one-pixel image.\<close>

theorem change_colorspace_identity_witness:
  "CSPACE_HSV \<in> set CSPACE_ALL \<and> CSPACE_HSV \<noteq> CSPACE_GRAY \<and>
   change_colorspace_inplace (\<lambda>src code dst. src\<lparr>data := rev (data src)\<rparr>)
     \<lparr>shape = [1, 1, 3], data = [10, 20, 30], c_contiguous = True\<rparr> CSPACE_HSV CSPACE_HSV
   = Inr \<lparr>shape = [1, 1, 3], data = [10, 20, 30], c_contiguous = True\<rparr>"
proof -
  have a: "CSPACE_HSV \<in> set CSPACE_ALL" by (simp add: CSPACE_ALL_def)
  have b: "CSPACE_HSV \<noteq> CSPACE_GRAY" by (simp add: CSPACE_defs)
  have c: "shape \<lparr>shape = [1, 1, 3], data = [10, 20, 30], c_contiguous = True\<rparr> = [1, 1, 3]"
    by simp
  show ?thesis
    using a b change_colorspace_identity [OF a b c] by simp
qed

text \<open>
  With \<open>A = GRAY\<close> the claim fails: the assertion that the source is not grayscale
  stands before the shortcut for equal tags, so \<^verbatim>\<open>GRAY\<close> to \<^verbatim>\<open>GRAY\<close> raises.
\<close>

theorem change_colorspace_gray_gray_counterexample:
  "CSPACE_GRAY \<in> set CSPACE_ALL \<and>
   change_colorspace_inplace (\<lambda>src code dst. src)
     \<lparr>shape = [1, 1, 3], data = [10, 20, 30], c_contiguous = True\<rparr> CSPACE_GRAY CSPACE_GRAY
   = Inl (AssertionError ''Cannot convert from grayscale to another colorspace'')"
  by (simp add: change_colorspace_inplace_def CSPACE_ALL_def)

subsection \<open>Routing through RGB\<close>

text \<open>
  Claim C7. Let \<open>from_cs\<close> and \<open>to_cs\<close> be different supported tags, \<open>from_cs\<close> not
  \<^verbatim>\<open>GRAY\<close>, and the image three-dimensional with three channels. If the pair is a key of
  the conversion table, the result is one call of \<^verbatim>\<open>cv2.cvtColor\<close> with the constant of
  that pair. Otherwise the table has the pairs \<open>(from_cs, RGB)\<close> and \<open>(RGB, to_cs)\<close>,
  so no lookup fails, and the result is two calls, the first with the constant of
  \<open>(from_cs, RGB)\<close>, the second, on the result of the first, with that of \<open>(RGB, to_cs)\<close>.
  The statement holds for every \<open>cvtColor\<close>, so these are all the calls there are.
\<close>

theorem change_colorspace_routing:
  assumes "from_cs \<in> set CSPACE_ALL" "to_cs \<in> set CSPACE_ALL"
    and "from_cs \<noteq> to_cs" "from_cs \<noteq> CSPACE_GRAY"
    and "ndim img = 3" "shape img ! 2 = 3"
  shows "case map_of CSPACE_OPENCV_CONV_VARS (from_cs, to_cs) of
           Some from2to_var \<Rightarrow>
             change_colorspace_inplace cvtColor img to_cs from_cs =
               Inr (gray_to_3 (cvtColor img from2to_var
                      (if c_contiguous img then Some img else None)))
         | None \<Rightarrow>
             (\<exists>from2rgb_var rgb2to_var.
                map_of CSPACE_OPENCV_CONV_VARS (from_cs, CSPACE_RGB) = Some from2rgb_var \<and>
                map_of CSPACE_OPENCV_CONV_VARS (CSPACE_RGB, to_cs) = Some rgb2to_var \<and>
                change_colorspace_inplace cvtColor img to_cs from_cs =
                  Inr (gray_to_3 (cvtColor
                    (cvtColor img from2rgb_var (if c_contiguous img then Some img else None))
                    rgb2to_var (if c_contiguous img then Some img else None))))"
proof (cases "map_of CSPACE_OPENCV_CONV_VARS (from_cs, to_cs)")
  case (Some v)
  then show ?thesis
    using assms by (simp add: change_colorspace_inplace_def get_dst_Some)
next
  case None
  have f_rgb: "from_cs \<noteq> CSPACE_RGB"
    using conv_vars_rgb_row_full [OF assms(2) None assms(3)] .
  obtain v1 where v1: "map_of CSPACE_OPENCV_CONV_VARS (from_cs, CSPACE_RGB) = Some v1"
    using conv_vars_to_rgb [OF assms(1) f_rgb assms(4)] by blast
  have t_rgb: "to_cs \<noteq> CSPACE_RGB"
    using None v1 by auto
  obtain v2 where v2: "map_of CSPACE_OPENCV_CONV_VARS (CSPACE_RGB, to_cs) = Some v2"
    using conv_vars_from_rgb [OF assms(2) t_rgb] by blast
  show ?thesis
    using assms None v1 v2
    by (simp add: change_colorspace_inplace_def get_dst_Some)
qed

text \<open>
  The theorem from \<^verbatim>\<open>HSV\<close> to \<^verbatim>\<open>Lab\<close>, a pair the table does not have. The stand-in for
  \<^verbatim>\<open>cv2.cvtColor\<close> appends the length of the constant's name to the data, which shows
  the two calls and their order: \<^verbatim>\<open>COLOR_HSV2RGB\<close> has 13 letters, \<^verbatim>\<open>COLOR_RGB2LAB\<close> 13,
  and from \<^verbatim>\<open>HSV\<close> to \<^verbatim>\<open>GRAY\<close> the second is \<^verbatim>\<open>COLOR_RGB2GRAY\<close> with 14.
\<close>

theorem change_colorspace_routing_witness:
  "map_of CSPACE_OPENCV_CONV_VARS (CSPACE_HSV, CSPACE_GRAY) = None \<and>
   change_colorspace_inplace
     (\<lambda>src code dst. src\<lparr>data := data src @ [of_nat (length code)]\<rparr>)
     \<lparr>shape = [1, 1, 3], data = [10, 20, 30], c_contiguous = True\<rparr> CSPACE_GRAY CSPACE_HSV
   = Inr \<lparr>shape = [1, 1, 3], data = [10, 20, 30, 13, 14], c_contiguous = True\<rparr>"
proof -
  let ?cvt = "\<lambda>src code dst. src\<lparr>data := data src @ [of_nat (length code)]\<rparr>"
  let ?img = "\<lparr>shape = [1, 1, 3], data = [10, 20, 30], c_contiguous = True\<rparr>"
  have a: "CSPACE_HSV \<in> set CSPACE_ALL" "CSPACE_GRAY \<in> set CSPACE_ALL"
    by (simp_all add: CSPACE_ALL_def)
  have b: "CSPACE_HSV \<noteq> CSPACE_GRAY" by (simp add: CSPACE_defs)
  have c: "ndim ?img = 3" "shape ?img ! 2 = 3" by (simp_all add: ndim_def)
  have n: "map_of CSPACE_OPENCV_CONV_VARS (CSPACE_HSV, CSPACE_GRAY) = None"
    by (simp add: CSPACE_OPENCV_CONV_VARS_def CSPACE_defs)
  have v1: "map_of CSPACE_OPENCV_CONV_VARS (CSPACE_HSV, CSPACE_RGB) = Some ''COLOR_HSV2RGB''"
    by (simp add: CSPACE_OPENCV_CONV_VARS_def CSPACE_defs)
  have v2: "map_of CSPACE_OPENCV_CONV_VARS (CSPACE_RGB, CSPACE_GRAY) = Some ''COLOR_RGB2GRAY''"
    by (simp add: CSPACE_OPENCV_CONV_VARS_def CSPACE_defs)
  show ?thesis
    using change_colorspace_routing [OF a b b c, of ?cvt] n v1 v2
    by (simp add: gray_to_3_def)
qed

subsection \<open>Batches\<close>

text \<open>
  A run of the loop is described by its trace: the stores \<open>hs\<close>, beginning with the
  store at the call, and the objects \<open>rs\<close> that the conversions return, where step \<open>j\<close>
  converts element \<open>j\<close> in store \<open>hs ! j\<close> and gives store \<open>hs ! Suc j\<close> and object
  \<open>rs ! j\<close>.
\<close>

lemma convert_loop_trace_ok:
  assumes "length hs = Suc (length gen)" "length rs = length gen" "hs ! 0 = s"
    and "\<forall>j<length gen. conv cvtColor (hs ! j) (gen ! j) = Inr (hs ! Suc j, rs ! j)"
    and "i + length gen \<le> length images"
  shows "convert_loop cvtColor i gen (s, images) =
           ((hs ! length gen, take i images @ rs @ drop (i + length gen) images), None)"
  using assms
proof (induction gen arbitrary: i s images hs rs)
  case Nil
  then show ?case by simp
next
  case (Cons t gen)
  obtain img to_cs from_cs where t: "t = (img, to_cs, from_cs)" by (cases t) auto
  obtain h0 hs' where hs: "hs = h0 # hs'" using Cons.prems(1) by (cases hs) auto
  obtain r0 rs' where rs: "rs = r0 # rs'" using Cons.prems(2) by (cases rs) auto
  have h0: "h0 = s" using Cons.prems(3) hs by simp
  have step: "change_colorspace_inplace_obj cvtColor s img to_cs from_cs = Inr (hs' ! 0, r0)"
    using Cons.prems(4)[rule_format, of 0] by (simp add: conv_def t hs rs h0)
  have i: "i < length images" using Cons.prems by simp
  have "convert_loop cvtColor (Suc i) gen (hs' ! 0, images[i := r0]) =
          ((hs' ! length gen,
            take (Suc i) (images[i := r0]) @ rs' @ drop (Suc i + length gen) (images[i := r0])),
           None)"
  proof (rule Cons.IH)
    show "length hs' = Suc (length gen)" using Cons.prems(1) hs by simp
    show "length rs' = length gen" using Cons.prems(2) rs by simp
    show "hs' ! 0 = hs' ! 0" by simp
    show "\<forall>j<length gen. conv cvtColor (hs' ! j) (gen ! j) = Inr (hs' ! Suc j, rs' ! j)"
    proof (intro allI impI)
      fix j assume "j < length gen"
      then show "conv cvtColor (hs' ! j) (gen ! j) = Inr (hs' ! Suc j, rs' ! j)"
        using Cons.prems(4)[rule_format, of "Suc j"] by (simp add: hs rs)
    qed
    show "Suc i + length gen \<le> length (images[i := r0])" using Cons.prems(5) by simp
  qed
  moreover have "take (Suc i) (images[i := r0]) = take i images @ [r0]"
    using i by (simp add: take_Suc_conv_app_nth)
  moreover have "drop (Suc i + length gen) (images[i := r0]) = drop (i + length (t # gen)) images"
    by simp
  ultimately show ?case
    by (simp add: t step hs rs)
qed

lemma convert_loop_trace_fail:
  assumes "k < length gen" "length hs = Suc k" "length rs = k" "hs ! 0 = s"
    and "\<forall>j<k. conv cvtColor (hs ! j) (gen ! j) = Inr (hs ! Suc j, rs ! j)"
    and "conv cvtColor (hs ! k) (gen ! k) = Inl e"
    and "i + length gen \<le> length images"
  shows "convert_loop cvtColor i gen (s, images) =
           ((hs ! k, take i images @ rs @ drop (i + k) images), Some e)"
  using assms
proof (induction gen arbitrary: i s images hs rs k)
  case Nil
  then show ?case by simp
next
  case (Cons t gen)
  obtain img to_cs from_cs where t: "t = (img, to_cs, from_cs)" by (cases t) auto
  obtain h0 hs' where hs: "hs = h0 # hs'" using Cons.prems(2) by (cases hs) auto
  have h0: "h0 = s" using Cons.prems(4) hs by simp
  show ?case
  proof (cases k)
    case 0
    then have "rs = []" using Cons.prems(3) by simp
    moreover have "change_colorspace_inplace_obj cvtColor s img to_cs from_cs = Inl e"
      using Cons.prems(6) 0 by (simp add: conv_def t hs h0)
    ultimately show ?thesis using 0 by (simp add: t hs h0)
  next
    case (Suc k')
    obtain r0 rs' where rs: "rs = r0 # rs'" using Cons.prems(3) Suc by (cases rs) auto
    have step: "change_colorspace_inplace_obj cvtColor s img to_cs from_cs = Inr (hs' ! 0, r0)"
      using Cons.prems(5)[rule_format, of 0] Suc by (simp add: conv_def t hs rs h0)
    have i: "i < length images" using Cons.prems by simp
    have "convert_loop cvtColor (Suc i) gen (hs' ! 0, images[i := r0]) =
            ((hs' ! k',
              take (Suc i) (images[i := r0]) @ rs' @ drop (Suc i + k') (images[i := r0])),
             Some e)"
    proof (rule Cons.IH)
      show "k' < length gen" using Cons.prems(1) Suc by simp
      show "length hs' = Suc k'" using Cons.prems(2) hs Suc by simp
      show "length rs' = k'" using Cons.prems(3) rs Suc by simp
      show "hs' ! 0 = hs' ! 0" by simp
      show "\<forall>j<k'. conv cvtColor (hs' ! j) (gen ! j) = Inr (hs' ! Suc j, rs' ! j)"
      proof (intro allI impI)
        fix j assume "j < k'"
        then show "conv cvtColor (hs' ! j) (gen ! j) = Inr (hs' ! Suc j, rs' ! j)"
          using Cons.prems(5)[rule_format, of "Suc j"] Suc by (simp add: hs rs)
      qed
      show "conv cvtColor (hs' ! k') (gen ! k') = Inl e"
        using Cons.prems(6) Suc by (simp add: hs)
      show "Suc i + length gen \<le> length (images[i := r0])" using Cons.prems(7) by simp
    qed
    moreover have "take (Suc i) (images[i := r0]) = take i images @ [r0]"
      using i by (simp add: take_Suc_conv_app_nth)
    moreover have "drop (Suc i + k') (images[i := r0]) = drop (i + k) images"
      using Suc by simp
    ultimately show ?thesis
      by (simp add: t step hs rs Suc)
  qed
qed

lemma convert_loop_trace_exists:
  "(\<exists>hs rs. length hs = Suc (length gen) \<and> length rs = length gen \<and> hs ! 0 = s \<and>
        (\<forall>j<length gen. conv cvtColor (hs ! j) (gen ! j) = Inr (hs ! Suc j, rs ! j)))
   \<or> (\<exists>k e hs rs. k < length gen \<and> length hs = Suc k \<and> length rs = k \<and> hs ! 0 = s \<and>
        (\<forall>j<k. conv cvtColor (hs ! j) (gen ! j) = Inr (hs ! Suc j, rs ! j)) \<and>
        conv cvtColor (hs ! k) (gen ! k) = Inl e)"
proof (induction gen arbitrary: s)
  case Nil
  have "length [s] = Suc (length ([] :: (ref \<times> string \<times> string) list)) \<and>
        length ([] :: ref list) = length ([] :: (ref \<times> string \<times> string) list) \<and> [s] ! 0 = s"
    by simp
  then show ?case by (intro disjI1 exI[of _ "[s]"] exI[of _ "[]"]) simp
next
  case (Cons t gen)
  show ?case
  proof (cases "conv cvtColor s t")
    case (Inl e)
    have "0 < length (t # gen) \<and> length [s] = Suc 0 \<and> length ([] :: ref list) = 0 \<and> [s] ! 0 = s \<and>
          (\<forall>j<0. conv cvtColor ([s] ! j) ((t # gen) ! j) = Inr ([s] ! Suc j, [] ! j)) \<and>
          conv cvtColor ([s] ! 0) ((t # gen) ! 0) = Inl e"
      using Inl by simp
    then show ?thesis by blast
  next
    case (Inr p)
    obtain s1 r where p: "p = (s1, r)" by (cases p) auto
    from Cons.IH[of s1] show ?thesis
    proof (elim disjE exE conjE)
      fix hs rs
      assume a: "length hs = Suc (length gen)" "length rs = length gen" "hs ! 0 = s1"
        "\<forall>j<length gen. conv cvtColor (hs ! j) (gen ! j) = Inr (hs ! Suc j, rs ! j)"
      have "\<forall>j<length (t # gen).
              conv cvtColor ((s # hs) ! j) ((t # gen) ! j) = Inr ((s # hs) ! Suc j, (r # rs) ! j)"
      proof (intro allI impI)
        fix j assume "j < length (t # gen)"
        then show "conv cvtColor ((s # hs) ! j) ((t # gen) ! j) = Inr ((s # hs) ! Suc j, (r # rs) ! j)"
          using a Inr p by (cases j) auto
      qed
      then have "length (s # hs) = Suc (length (t # gen)) \<and> length (r # rs) = length (t # gen) \<and>
                 (s # hs) ! 0 = s \<and>
                 (\<forall>j<length (t # gen).
                    conv cvtColor ((s # hs) ! j) ((t # gen) ! j) = Inr ((s # hs) ! Suc j, (r # rs) ! j))"
        using a by simp
      then show ?thesis by blast
    next
      fix k e hs rs
      assume a: "k < length gen" "length hs = Suc k" "length rs = k" "hs ! 0 = s1"
        "\<forall>j<k. conv cvtColor (hs ! j) (gen ! j) = Inr (hs ! Suc j, rs ! j)"
        "conv cvtColor (hs ! k) (gen ! k) = Inl e"
      have "\<forall>j<Suc k.
              conv cvtColor ((s # hs) ! j) ((t # gen) ! j) = Inr ((s # hs) ! Suc j, (r # rs) ! j)"
      proof (intro allI impI)
        fix j assume "j < Suc k"
        then show "conv cvtColor ((s # hs) ! j) ((t # gen) ! j) = Inr ((s # hs) ! Suc j, (r # rs) ! j)"
          using a Inr p by (cases j) auto
      qed
      then have "Suc k < length (t # gen) \<and> length (s # hs) = Suc (Suc k) \<and>
                 length (r # rs) = Suc k \<and> (s # hs) ! 0 = s \<and>
                 (\<forall>j<Suc k.
                    conv cvtColor ((s # hs) ! j) ((t # gen) ! j) = Inr ((s # hs) ! Suc j, (r # rs) ! j)) \<and>
                 conv cvtColor ((s # hs) ! Suc k) ((t # gen) ! Suc k) = Inl e"
        using a by simp
      then show ?thesis by blast
    qed
  qed
qed

lemma zip_batch_nth:
  assumes "length tos = length images" "length froms = length images" "j < length images"
  shows "conv cvtColor s' (zip images (zip tos froms) ! j) =
           change_colorspace_inplace_obj cvtColor s' (images ! j) (tos ! j) (froms ! j)"
  using assms by (simp add: conv_def)


text \<open>
  Claim C9. Write \<open>n\<close> for the number of images, \<open>batch\<close> for the call on the store \<open>s\<close>
  and the list \<open>images\<close>, and \<open>per s' j\<close> for the conversion of image \<open>j\<close> alone, with
  its own two tags, in the store \<open>s'\<close>.
  (1), (2) In either position a single string stands for the list that repeats it \<open>n\<close>
  times, whatever the other argument is.
  (3), (4) In either position a list of another length than \<open>n\<close> raises an assertion and
  leaves the store and the batch as they were, whatever the other argument is.
  (5) When the conversions succeed one after the other, each in the store the one before
  left, the call returns the last store and the list of the objects they returned.
  (6) When the conversions before \<open>k\<close> succeed in this way and conversion \<open>k\<close> fails in
  the store they left, its exception leaves the function; the store is that store, with
  every earlier write in it, and the list holds the objects returned for the images
  before \<open>k\<close> and, from \<open>k\<close> on, the entries as they were.
  (7) One of the two always is the case.
\<close>

theorem change_colorspaces_inplace_batch:
  fixes cvtColor :: cvt_obj and s :: store and images :: "ref list"
    and tos froms :: "string list"
  defines "n \<equiv> length images"
  defines "batch \<equiv> change_colorspaces_inplace cvtColor s images"
  defines "per \<equiv> \<lambda>s' j.
             change_colorspace_inplace_obj cvtColor s' (images ! j) (tos ! j) (froms ! j)"
  shows "(\<forall>arg. batch (Str t) arg = batch (StrList (replicate n t)) arg)
       \<and> (\<forall>arg. batch arg (Str f) = batch arg (StrList (replicate n f)))
       \<and> (length tos \<noteq> n \<longrightarrow>
            (\<forall>arg. \<exists>m. batch (StrList tos) arg = ((s, images), Some (AssertionError m))))
       \<and> (length froms \<noteq> n \<longrightarrow>
            (\<forall>arg. \<exists>m. batch arg (StrList froms) = ((s, images), Some (AssertionError m))))
       \<and> (\<forall>hs rs. length tos = n \<and> length froms = n \<and>
              length hs = Suc n \<and> length rs = n \<and> hs ! 0 = s \<and>
              (\<forall>j<n. per (hs ! j) j = Inr (hs ! Suc j, rs ! j)) \<longrightarrow>
            batch (StrList tos) (StrList froms) = ((hs ! n, rs), None))
       \<and> (\<forall>k e hs rs. length tos = n \<and> length froms = n \<and> k < n \<and>
              length hs = Suc k \<and> length rs = k \<and> hs ! 0 = s \<and>
              (\<forall>j<k. per (hs ! j) j = Inr (hs ! Suc j, rs ! j)) \<and>
              per (hs ! k) k = Inl e \<longrightarrow>
            batch (StrList tos) (StrList froms) = ((hs ! k, rs @ drop k images), Some e))
       \<and> (length tos = n \<and> length froms = n \<longrightarrow>
            (\<exists>hs rs. length hs = Suc n \<and> length rs = n \<and> hs ! 0 = s \<and>
               (\<forall>j<n. per (hs ! j) j = Inr (hs ! Suc j, rs ! j)))
          \<or> (\<exists>k e hs rs. k < n \<and> length hs = Suc k \<and> length rs = k \<and> hs ! 0 = s \<and>
               (\<forall>j<k. per (hs ! j) j = Inr (hs ! Suc j, rs ! j)) \<and>
               per (hs ! k) k = Inl e))"
proof (intro conjI allI impI)
  fix arg
  show "batch (Str t) arg = batch (StrList (replicate n t)) arg"
    by (simp add: batch_def change_colorspaces_inplace_def validate_def n_def)
next
  fix arg
  show "batch arg (Str f) = batch arg (StrList (replicate n f))"
    by (cases arg) (simp_all add: batch_def change_colorspaces_inplace_def validate_def n_def)
next
  fix arg
  assume "length tos \<noteq> n"
  then show "\<exists>m. batch (StrList tos) arg = ((s, images), Some (AssertionError m))"
    by (simp add: batch_def change_colorspaces_inplace_def validate_def n_def)
next
  fix arg
  assume "length froms \<noteq> n"
  then show "\<exists>m. batch arg (StrList froms) = ((s, images), Some (AssertionError m))"
    by (cases arg) (simp_all add: batch_def change_colorspaces_inplace_def validate_def n_def)
next
  fix hs rs
  assume a: "length tos = n \<and> length froms = n \<and>
              length hs = Suc n \<and> length rs = n \<and> hs ! 0 = s \<and>
              (\<forall>j<n. per (hs ! j) j = Inr (hs ! Suc j, rs ! j))"
  let ?gen = "zip images (zip tos froms)"
  have len: "length ?gen = n" using a by (simp add: n_def)
  have nth: "\<And>s' j. j < n \<Longrightarrow> conv cvtColor s' (?gen ! j) = per s' j"
    using a unfolding per_def n_def by (intro zip_batch_nth) auto
  have "convert_loop cvtColor 0 ?gen (s, images) =
          ((hs ! length ?gen, take 0 images @ rs @ drop (0 + length ?gen) images), None)"
  proof (rule convert_loop_trace_ok)
    show "length hs = Suc (length ?gen)" using a len by simp
    show "length rs = length ?gen" using a len by simp
    show "hs ! 0 = s" using a by simp
    show "\<forall>j<length ?gen. conv cvtColor (hs ! j) (?gen ! j) = Inr (hs ! Suc j, rs ! j)"
      using a nth len by auto
    show "0 + length ?gen \<le> length images" by simp
  qed
  then show "batch (StrList tos) (StrList froms) = ((hs ! n, rs), None)"
    using a len by (simp add: batch_def change_colorspaces_inplace_def validate_def n_def)
next
  fix k e hs rs
  assume a: "length tos = n \<and> length froms = n \<and> k < n \<and>
              length hs = Suc k \<and> length rs = k \<and> hs ! 0 = s \<and>
              (\<forall>j<k. per (hs ! j) j = Inr (hs ! Suc j, rs ! j)) \<and>
              per (hs ! k) k = Inl e"
  let ?gen = "zip images (zip tos froms)"
  have len: "length ?gen = n" using a by (simp add: n_def)
  have nth: "\<And>s' j. j < n \<Longrightarrow> conv cvtColor s' (?gen ! j) = per s' j"
    using a unfolding per_def n_def by (intro zip_batch_nth) auto
  have "convert_loop cvtColor 0 ?gen (s, images) =
          ((hs ! k, take 0 images @ rs @ drop (0 + k) images), Some e)"
  proof (rule convert_loop_trace_fail)
    show "k < length ?gen" using a len by simp
    show "length hs = Suc k" using a by simp
    show "length rs = k" using a by simp
    show "hs ! 0 = s" using a by simp
    show "\<forall>j<k. conv cvtColor (hs ! j) (?gen ! j) = Inr (hs ! Suc j, rs ! j)"
      using a nth by auto
    show "conv cvtColor (hs ! k) (?gen ! k) = Inl e" using a nth by auto
    show "0 + length ?gen \<le> length images" by simp
  qed
  then show "batch (StrList tos) (StrList froms) = ((hs ! k, rs @ drop k images), Some e)"
    using a len by (simp add: batch_def change_colorspaces_inplace_def validate_def n_def)
next
  assume a: "length tos = n \<and> length froms = n"
  let ?gen = "zip images (zip tos froms)"
  have len: "length ?gen = n" using a by (simp add: n_def)
  have nth: "\<And>s' j. j < n \<Longrightarrow> conv cvtColor s' (?gen ! j) = per s' j"
    using a unfolding per_def n_def by (intro zip_batch_nth) auto
  from convert_loop_trace_exists[of ?gen s cvtColor]
  show "(\<exists>hs rs. length hs = Suc n \<and> length rs = n \<and> hs ! 0 = s \<and>
               (\<forall>j<n. per (hs ! j) j = Inr (hs ! Suc j, rs ! j)))
          \<or> (\<exists>k e hs rs. k < n \<and> length hs = Suc k \<and> length rs = k \<and> hs ! 0 = s \<and>
               (\<forall>j<k. per (hs ! j) j = Inr (hs ! Suc j, rs ! j)) \<and>
               per (hs ! k) k = Inl e)"
  proof (elim disjE exE conjE)
    fix hs rs
    assume b: "length hs = Suc (length ?gen)" "length rs = length ?gen" "hs ! 0 = s"
      "\<forall>j<length ?gen. conv cvtColor (hs ! j) (?gen ! j) = Inr (hs ! Suc j, rs ! j)"
    have "\<forall>j<n. per (hs ! j) j = Inr (hs ! Suc j, rs ! j)"
    proof (intro allI impI)
      fix j assume j: "j < n"
      have "conv cvtColor (hs ! j) (?gen ! j) = Inr (hs ! Suc j, rs ! j)"
        using b(4)[unfolded len] j by blast
      then show "per (hs ! j) j = Inr (hs ! Suc j, rs ! j)"
        unfolding nth[OF j] .
    qed
    moreover have "length hs = Suc n" "length rs = n" using b(1,2) unfolding len by simp_all
    ultimately have "length hs = Suc n \<and> length rs = n \<and> hs ! 0 = s \<and>
               (\<forall>j<n. per (hs ! j) j = Inr (hs ! Suc j, rs ! j))"
      using b(3) by blast
    then show ?thesis by blast
  next
    fix k e hs rs
    assume b: "k < length ?gen" "length hs = Suc k" "length rs = k" "hs ! 0 = s"
      "\<forall>j<k. conv cvtColor (hs ! j) (?gen ! j) = Inr (hs ! Suc j, rs ! j)"
      "conv cvtColor (hs ! k) (?gen ! k) = Inl e"
    have k: "k < n" using b(1) unfolding len .
    have "\<forall>j<k. per (hs ! j) j = Inr (hs ! Suc j, rs ! j)"
    proof (intro allI impI)
      fix j assume j: "j < k"
      then have jn: "j < n" using k by simp
      have "conv cvtColor (hs ! j) (?gen ! j) = Inr (hs ! Suc j, rs ! j)"
        using b(5) j by blast
      then show "per (hs ! j) j = Inr (hs ! Suc j, rs ! j)"
        unfolding nth[OF jn] .
    qed
    moreover have "per (hs ! k) k = Inl e" using b(6) unfolding nth[OF k] .
    ultimately have "k < n \<and> length hs = Suc k \<and> length rs = k \<and> hs ! 0 = s \<and>
               (\<forall>j<k. per (hs ! j) j = Inr (hs ! Suc j, rs ! j)) \<and> per (hs ! k) k = Inl e"
      using b(2,3,4) k by blast
    then show ?thesis by blast
  qed
qed

text \<open>
  The theorem on a batch of three entries where the first two are the same array object
  and the third has the source tag \<^verbatim>\<open>GRAY\<close>, with a single string as target.
  The stand-in for \<^verbatim>\<open>cv2.cvtColor\<close> reverses the data and writes into \<^verbatim>\<open>dst\<close> when it is
  given one. The shared object is converted twice in place, so it holds its first data
  again when the third conversion raises, and nothing is undone.
\<close>

lemmas eval_change_colorspace_obj =
  change_colorspace_inplace_obj_def CSPACE_ALL_def CSPACE_defs ndim_def
  CSPACE_OPENCV_CONV_VARS_def get_dst_obj_def get_dst_def CHANGE_COLORSPACE_INPLACE_def
  gray_to_3_obj_def

theorem change_colorspaces_inplace_batch_witness:
  "change_colorspaces_inplace
     (\<lambda>s src code dst.
        case dst of
          Some d \<Rightarrow> (s[d := (s ! src)\<lparr>data := rev (data (s ! src))\<rparr>], d)
        | None \<Rightarrow> (s @ [(s ! src)\<lparr>data := rev (data (s ! src))\<rparr>], length s))
     [\<lparr>shape = [1, 1, 3], data = [1, 2, 3], c_contiguous = True\<rparr>,
      \<lparr>shape = [1, 1, 3], data = [4, 5, 6], c_contiguous = True\<rparr>]
     [0, 0, 1]
     (Str CSPACE_BGR)
     (StrList [CSPACE_RGB, CSPACE_RGB, CSPACE_GRAY])
   = (([\<lparr>shape = [1, 1, 3], data = [1, 2, 3], c_contiguous = True\<rparr>,
        \<lparr>shape = [1, 1, 3], data = [4, 5, 6], c_contiguous = True\<rparr>],
       [0, 0, 1]),
      Some (AssertionError ''Cannot convert from grayscale to another colorspace''))"
proof -
  let ?cvt = "\<lambda>s src code dst.
        case dst of
          Some d \<Rightarrow> (s[d := (s ! src)\<lparr>data := rev (data (s ! src))\<rparr>], d)
        | None \<Rightarrow> (s @ [(s ! src)\<lparr>data := rev (data (s ! src))\<rparr>], length s)"
  let ?a = "\<lparr>shape = [1, 1, 3], data = [1, 2, 3], c_contiguous = True\<rparr>"
  let ?a' = "\<lparr>shape = [1, 1, 3], data = [3, 2, 1], c_contiguous = True\<rparr>"
  let ?b = "\<lparr>shape = [1, 1, 3], data = [4, 5, 6], c_contiguous = True\<rparr>"
  let ?s0 = "[?a, ?b]"
  let ?s1 = "[?a', ?b]"
  let ?images = "[0, 0, 1] :: ref list"
  let ?tos = "[CSPACE_BGR, CSPACE_BGR, CSPACE_BGR]"
  let ?froms = "[CSPACE_RGB, CSPACE_RGB, CSPACE_GRAY]"
  let ?hs = "[?s0, ?s1, ?s0]"
  let ?rs = "[0, 0] :: ref list"
  have p0: "change_colorspace_inplace_obj ?cvt ?s0 0 CSPACE_BGR CSPACE_RGB = Inr (?s1, 0)"
    by (simp add: eval_change_colorspace_obj)
  have p1: "change_colorspace_inplace_obj ?cvt ?s1 0 CSPACE_BGR CSPACE_RGB = Inr (?s0, 0)"
    by (simp add: eval_change_colorspace_obj)
  have p2: "change_colorspace_inplace_obj ?cvt ?s0 1 CSPACE_BGR CSPACE_GRAY =
              Inl (AssertionError ''Cannot convert from grayscale to another colorspace'')"
    by (simp add: change_colorspace_inplace_obj_def CSPACE_ALL_def)
  have steps: "\<forall>j<2. change_colorspace_inplace_obj ?cvt (?hs ! j) (?images ! j) (?tos ! j) (?froms ! j)
                 = Inr (?hs ! Suc j, ?rs ! j)"
  proof (intro allI impI)
    fix j :: nat assume "j < 2"
    then have "j = 0 \<or> j = 1" by auto
    then show "change_colorspace_inplace_obj ?cvt (?hs ! j) (?images ! j) (?tos ! j) (?froms ! j)
                 = Inr (?hs ! Suc j, ?rs ! j)"
      using p0 p1 by auto
  qed
  have hyp: "length ?tos = length ?images \<and> length ?froms = length ?images \<and>
        (2::nat) < length ?images \<and> length ?hs = Suc 2 \<and> length ?rs = 2 \<and> ?hs ! 0 = ?s0 \<and>
        (\<forall>j<2. change_colorspace_inplace_obj ?cvt (?hs ! j) (?images ! j) (?tos ! j) (?froms ! j)
                 = Inr (?hs ! Suc j, ?rs ! j)) \<and>
        change_colorspace_inplace_obj ?cvt (?hs ! 2) (?images ! 2) (?tos ! 2) (?froms ! 2) =
          Inl (AssertionError ''Cannot convert from grayscale to another colorspace'')"
    using steps p2 by simp
  note batch = change_colorspaces_inplace_batch [of ?cvt ?s0 ?images CSPACE_BGR _ ?tos ?froms]
  have bc: "change_colorspaces_inplace ?cvt ?s0 ?images (Str CSPACE_BGR) (StrList ?froms) =
            change_colorspaces_inplace ?cvt ?s0 ?images
              (StrList (replicate (length ?images) CSPACE_BGR)) (StrList ?froms)"
    using batch by blast
  have "change_colorspaces_inplace ?cvt ?s0 ?images (StrList ?tos) (StrList ?froms) =
          ((?hs ! 2, ?rs @ drop 2 ?images),
           Some (AssertionError ''Cannot convert from grayscale to another colorspace''))"
    using batch hyp by blast
  then show ?thesis using bc by (simp add: numeral_3_eq_3)
qed

section \<open>Properties of the hue engine\<close>

subsection \<open>The projected sample\<close>








subsection \<open>The lookup tables\<close>














lemma shape_set_channel [simp]: "shape (set_channel c f a) = shape a"
  by (simp add: set_channel_def)

lemma length_data_set_channel [simp]: "length (data (set_channel c f a)) = length (data a)"
  by (simp add: set_channel_def)


lemma has_channel_set_channel [simp]: "has_channel (set_channel c f a) c' = has_channel a c'"
  by (simp add: has_channel_def)







subsection \<open>The hue that is added\<close>






subsection \<open>The range check at sampling time\<close>






subsection \<open>Adding 255 to the hue\<close>



end
